theory Spec2Isabelle
  imports Main
begin

section \<open>Background remover: \<open>remove_bg.py\<close>\<close>

text \<open>
  The program is one function, \<open>remove_white_background(input_path, output_path)\<close>,
  and one module-level call of it. It opens an image with Pillow, converts it to RGBA,
  walks over the pixels building the list \<open>newData\<close>, puts that list back into the
  image and saves the image as PNG.

  The embedding follows the source line by line. Pillow and the file system are not part
  of the repository: every Pillow call of the source is a parameter of the model (the
  record \<open>pil\<close> below), so that a theorem about \<open>remove_white_background\<close>
  holds for whatever these calls do. The loop over the pixels is the repository's own code
  and is modelled in full.
\<close>

subsection \<open>Data\<close>

text \<open>
  A pixel is what iterating over \<open>img.getdata()\<close> yields: a Python tuple of
  unbounded integers. The source reads it by index, \<open>item[0]\<close>, \<open>item[1]\<close>,
  \<open>item[2]\<close>, so the tuple is a list and the read is the fallible \<open>getitem\<close>.
\<close>

type_synonym pixel = "int list"

datatype error =
    IndexError
  | TypeError
  | ValueError
  | FileNotFoundError
  | PermissionError
  | UnidentifiedImageError
  | OSError

text \<open>\<open>item[i]\<close> for a non-negative literal index: Python raises IndexError out of range.\<close>

definition getitem :: "pixel \<Rightarrow> nat \<Rightarrow> error + int" where
  "getitem item i = (if i < length item then Inr (item ! i) else Inl IndexError)"

text \<open>
  What the program can observe and change outside its own variables: the file system,
  which only Pillow touches and which stays abstract, and the lines printed so far.
\<close>

record 'fs world =
  fs :: 'fs
  stdout :: "string list"

text \<open>
  The Pillow calls of the source, in the order they occur. \<open>Image.open\<close>,
  \<open>convert\<close> (which is where Pillow really reads the pixel data of the file) and
  \<open>save\<close> act on the file system and may raise; \<open>getdata\<close> reads the image in
  memory; \<open>putdata\<close> changes the image in place, so it returns the changed image.
  \<open>Image_size\<close> is the attribute \<open>img.size\<close>, (width, height); the source
  never reads it, the statement about dimensions does.
\<close>

record ('img, 'fs) pil =
  Image_open :: "'fs \<Rightarrow> string \<Rightarrow> (error + 'img) \<times> 'fs"
  convert :: "'fs \<Rightarrow> 'img \<Rightarrow> string \<Rightarrow> (error + 'img) \<times> 'fs"
  getdata :: "'img \<Rightarrow> pixel list"
  putdata :: "'img \<Rightarrow> pixel list \<Rightarrow> error + 'img"
  save :: "'fs \<Rightarrow> 'img \<Rightarrow> string \<Rightarrow> string \<Rightarrow> (error + unit) \<times> 'fs"
  Image_size :: "'img \<Rightarrow> nat \<times> nat"

subsection \<open>The classification loop\<close>

text \<open>
  The condition of the \<open>if\<close>:
  \<^verbatim>\<open>item[0] > 220 and item[1] > 220 and item[2] > 220\<close>.
  Python's \<open>and\<close> evaluates from the left and stops at the first false operand, so
  \<open>item[1]\<close> is read only when \<open>item[0] > 220\<close>, and \<open>item[2]\<close> only when
  both comparisons before it hold.
\<close>

definition close_to_white :: "pixel \<Rightarrow> error + bool" where
  "close_to_white item =
     (case getitem item 0 of
        Inl e \<Rightarrow> Inl e
      | Inr r \<Rightarrow>
          if \<not> r > 220 then Inr False
          else (case getitem item 1 of
                  Inl e \<Rightarrow> Inl e
                | Inr g \<Rightarrow>
                    if \<not> g > 220 then Inr False
                    else (case getitem item 2 of
                            Inl e \<Rightarrow> Inl e
                          | Inr b \<Rightarrow> Inr (b > 220))))"

text \<open>
  \<^verbatim>\<open>
  newData = []
  for item in datas:
      if item[0] > 220 and item[1] > 220 and item[2] > 220:
          newData.append((255, 255, 255, 0))
      else:
          newData.append(item)
  \<close>
  The second argument is \<open>newData\<close> as built so far; an exception raised by the
  condition leaves the loop.
\<close>

fun for_item_in :: "pixel list \<Rightarrow> pixel list \<Rightarrow> error + pixel list" where
  "for_item_in [] newData = Inr newData"
| "for_item_in (item # datas) newData =
     (case close_to_white item of
        Inl e \<Rightarrow> Inl e
      | Inr c \<Rightarrow>
          if c then for_item_in datas (newData @ [[255, 255, 255, 0]])
          else for_item_in datas (newData @ [item]))"

subsection \<open>The function\<close>

text \<open>
  \<^verbatim>\<open>
  def remove_white_background(input_path, output_path):
      img = Image.open(input_path)
      img = img.convert("RGBA")
      datas = img.getdata()
      newData = [] ... (the loop)
      img.putdata(newData)
      img.save(output_path, "PNG")
      print(f"Saved transparent image to {output_path}")
  \<close>
  There is no \<open>try\<close> in the source: the first call that raises ends the function with
  that exception, in the world as that call left it.
\<close>

definition remove_white_background ::
  "('img, 'fs) pil \<Rightarrow> 'fs world \<Rightarrow> string \<Rightarrow> string \<Rightarrow> (error + unit) \<times> 'fs world" where
  "remove_white_background L w input_path output_path =
     (case Image_open L (fs w) input_path of
        (Inl e, s1) \<Rightarrow> (Inl e, w\<lparr>fs := s1\<rparr>)
      | (Inr img0, s1) \<Rightarrow>
     (case convert L s1 img0 ''RGBA'' of
        (Inl e, s2) \<Rightarrow> (Inl e, w\<lparr>fs := s2\<rparr>)
      | (Inr img, s2) \<Rightarrow>
     (case for_item_in (getdata L img) [] of
        Inl e \<Rightarrow> (Inl e, w\<lparr>fs := s2\<rparr>)
      | Inr newData \<Rightarrow>
     (case putdata L img newData of
        Inl e \<Rightarrow> (Inl e, w\<lparr>fs := s2\<rparr>)
      | Inr img' \<Rightarrow>
     (case save L s2 img' output_path ''PNG'' of
        (Inl e, s3) \<Rightarrow> (Inl e, w\<lparr>fs := s3\<rparr>)
      | (Inr u, s3) \<Rightarrow>
          (Inr (), w\<lparr>fs := s3,
                      stdout := stdout w @ [''Saved transparent image to '' @ output_path]\<rparr>))))))"

text \<open>The module-level call, with both paths the same literal.\<close>

definition module_body :: "('img, 'fs) pil \<Rightarrow> 'fs world \<Rightarrow> (error + unit) \<times> 'fs world" where
  "module_body L w =
     remove_white_background L w ''public/zen-circle.png'' ''public/zen-circle.png''"

subsection \<open>The per-pixel map in the words of the specification\<close>

text \<open>
  Section 4.1 of the specification, steps 3 and 4: a pixel is background when red > 220
  and green > 220 and blue > 220; a background pixel is replaced by (255, 255, 255, 0), any
  other pixel passes through unchanged. This function is written from those words, on
  4-tuples, to be compared with the loop of the source.
\<close>

definition spec_pixel_map :: "pixel \<Rightarrow> pixel" where
  "spec_pixel_map p =
     (if p ! 0 > 220 \<and> p ! 1 > 220 \<and> p ! 2 > 220 then [255, 255, 255, 0] else p)"

subsection \<open>An in-memory instance of the Pillow interface\<close>

text \<open>
  The theorems about \<open>remove_white_background\<close> hold for every instance of
  \<open>pil\<close>. To run them on concrete inputs there is a small instance here: an image
  is a mode, a size and a flat list of pixels, a file system is a list of named images and
  a flag saying that the disk is full. Opening a name that is not there fails; converting an
  image whose data is shorter than its size (a truncated file) fails; saving to the empty
  path fails, and saving on a full disk fails after the file has been created, leaving it
  empty. None of this is used by the general theorems.
\<close>

record raster =
  r_mode :: string
  r_size :: "nat \<times> nat"
  r_data :: "pixel list"

record disk =
  files :: "(string \<times> raster) list"
  full :: bool

definition mem_open :: "disk \<Rightarrow> string \<Rightarrow> (error + raster) \<times> disk" where
  "mem_open d path =
     (case map_of (files d) path of
        None \<Rightarrow> (Inl FileNotFoundError, d)
      | Some r \<Rightarrow> (Inr r, d))"

definition mem_convert :: "disk \<Rightarrow> raster \<Rightarrow> string \<Rightarrow> (error + raster) \<times> disk" where
  "mem_convert d r m =
     (if length (r_data r) \<noteq> fst (r_size r) * snd (r_size r) then (Inl OSError, d)
      else if r_mode r = m then (Inr r, d)
      else if r_mode r = ''RGB'' \<and> m = ''RGBA''
        then (Inr (r\<lparr>r_mode := m, r_data := map (\<lambda>p. p @ [255]) (r_data r)\<rparr>), d)
      else (Inl ValueError, d))"

definition mem_putdata :: "raster \<Rightarrow> pixel list \<Rightarrow> error + raster" where
  "mem_putdata r xs =
     (if length xs > fst (r_size r) * snd (r_size r) then Inl TypeError
      else Inr (r\<lparr>r_data := xs @ drop (length xs) (r_data r)\<rparr>))"

definition mem_save :: "disk \<Rightarrow> raster \<Rightarrow> string \<Rightarrow> string \<Rightarrow> (error + unit) \<times> disk" where
  "mem_save d r path fmt =
     (if path = [] then (Inl FileNotFoundError, d)
      else if full d
        then (Inl OSError, d\<lparr>files := (path, r\<lparr>r_data := []\<rparr>) # files d\<rparr>)
      else (Inr (), d\<lparr>files := (path, r) # files d\<rparr>))"

definition mem_pil :: "(raster, disk) pil" where
  "mem_pil = \<lparr>Image_open = mem_open, convert = mem_convert, getdata = r_data,
              putdata = mem_putdata, save = mem_save, Image_size = r_size\<rparr>"

definition two_by_one :: raster where
  "two_by_one = \<lparr>r_mode = ''RGB'', r_size = (2, 1), r_data = [[255, 255, 255], [0, 0, 0]]\<rparr>"

definition truncated :: raster where
  "truncated = \<lparr>r_mode = ''RGB'', r_size = (2, 1), r_data = [[255, 255, 255]]\<rparr>"

definition small_world :: "disk world" where
  "small_world = \<lparr>fs = \<lparr>files = [(''in.png'', two_by_one), (''cut.png'', truncated)],
                          full = False\<rparr>,
                  stdout = []\<rparr>"

definition full_world :: "disk world" where
  "full_world = \<lparr>fs = \<lparr>files = [(''in.png'', two_by_one)], full = True\<rparr>, stdout = []\<rparr>"

lemmas mem_defs = mem_pil_def mem_open_def mem_convert_def mem_putdata_def mem_save_def
  two_by_one_def truncated_def small_world_def full_world_def

section \<open>The classification loop\<close>

subsection \<open>Auxiliary facts\<close>

text \<open>On a 4-tuple all three reads succeed and the condition is the plain conjunction.\<close>

lemma close_to_white_rgba:
  "length item = 4 \<Longrightarrow>
     close_to_white item = Inr (item ! 0 > 220 \<and> item ! 1 > 220 \<and> item ! 2 > 220)"
  by (simp add: close_to_white_def getitem_def)

lemma length_spec_pixel_map: "length p = 4 \<Longrightarrow> length (spec_pixel_map p) = 4"
  by (simp add: spec_pixel_map_def)

lemma spec_pixel_map_twice: "spec_pixel_map (spec_pixel_map p) = spec_pixel_map p"
  by (simp add: spec_pixel_map_def)

text \<open>
  The loop with any \<open>newData\<close> built so far: on 4-tuples it returns, and it has
  appended the image of every pixel under the specification's map, in order.
\<close>

lemma for_item_in_rgba:
  "\<forall>p\<in>set datas. length p = 4 \<Longrightarrow>
     for_item_in datas newData = Inr (newData @ map spec_pixel_map datas)"
proof (induction datas arbitrary: newData)
  case Nil
  show ?case by simp
next
  case (Cons item datas)
  from Cons.prems have len: "length item = 4" and rest: "\<forall>p\<in>set datas. length p = 4"
    by simp_all
  show ?case
    by (simp add: close_to_white_rgba [OF len] Cons.IH [OF rest] spec_pixel_map_def)
qed

text \<open>Whatever the pixels are, a loop that returns has appended one pixel per input pixel.\<close>

lemma for_item_in_length:
  "for_item_in datas newData = Inr out \<Longrightarrow> length out = length newData + length datas"
proof (induction datas arbitrary: newData)
  case Nil
  then show ?case by simp
next
  case (Cons item datas)
  then show ?case
    by (auto split: sum.splits if_splits)
qed

subsection \<open>Claims about single pixels and the buffer\<close>

text \<open>
  C7. On the pixel sequence of the 2 by 1 image [(255,255,255,255), (0,0,0,255)] the loop
  produces exactly [(255,255,255,0), (0,0,0,255)].
\<close>

theorem two_by_one_scenario:
  "for_item_in [[255, 255, 255, 255], [0, 0, 0, 255]] []
     = Inr [[255, 255, 255, 0], [0, 0, 0, 255]]"
  by (simp add: close_to_white_def getitem_def)

text \<open>
  C1. In a buffer of 4-tuples, every pixel whose red, green and blue are each strictly
  greater than 220 is written as (255, 255, 255, 0) at the same position of the output
  buffer. The loop returns on such a buffer, and the output has the input's length. The
  instance below the theorem is the boundary pixel (221, 221, 221, 255).
\<close>

theorem background_pixel_made_transparent:
  assumes "\<forall>p\<in>set datas. length p = 4"
    and "i < length datas"
    and "datas ! i ! 0 > 220" and "datas ! i ! 1 > 220" and "datas ! i ! 2 > 220"
  shows "\<exists>newData. for_item_in datas [] = Inr newData
           \<and> length newData = length datas
           \<and> newData ! i = [255, 255, 255, 0]"
  using assms by (simp add: for_item_in_rgba spec_pixel_map_def)

theorem background_pixel_made_transparent_witness:
  "length [221, 221, 221, 255 :: int] = 4
   \<and> (0::nat) < length [[221, 221, 221, 255 :: int]]
   \<and> [[221, 221, 221, 255 :: int]] ! 0 ! 0 > 220
   \<and> [[221, 221, 221, 255 :: int]] ! 0 ! 1 > 220
   \<and> [[221, 221, 221, 255 :: int]] ! 0 ! 2 > 220
   \<and> (\<exists>newData. for_item_in [[221, 221, 221, 255]] [] = Inr newData
           \<and> length newData = length [[221, 221, 221, 255 :: int]]
           \<and> newData ! 0 = [255, 255, 255, 0])"
  using background_pixel_made_transparent [of "[[221, 221, 221, 255]]" 0]
  by simp

text \<open>
  C2. In a buffer of 4-tuples, every pixel with red \<le> 220 or green \<le> 220 or
  blue \<le> 220 is found unchanged, all four channels, at the same position of the output
  buffer. The instance below the theorem is the boundary pixel (220, 220, 220, 255).
\<close>

theorem other_pixel_unchanged:
  assumes "\<forall>p\<in>set datas. length p = 4"
    and "i < length datas"
    and "datas ! i ! 0 \<le> 220 \<or> datas ! i ! 1 \<le> 220 \<or> datas ! i ! 2 \<le> 220"
  shows "\<exists>newData. for_item_in datas [] = Inr newData
           \<and> length newData = length datas
           \<and> newData ! i = datas ! i"
  using assms by (auto simp add: for_item_in_rgba spec_pixel_map_def)

theorem other_pixel_unchanged_witness:
  "length [220, 220, 220, 255 :: int] = 4
   \<and> (0::nat) < length [[220, 220, 220, 255 :: int]]
   \<and> ([[220, 220, 220, 255 :: int]] ! 0 ! 0 \<le> 220
        \<or> [[220, 220, 220, 255 :: int]] ! 0 ! 1 \<le> 220
        \<or> [[220, 220, 220, 255 :: int]] ! 0 ! 2 \<le> 220)
   \<and> (\<exists>newData. for_item_in [[220, 220, 220, 255]] [] = Inr newData
           \<and> length newData = length [[220, 220, 220, 255 :: int]]
           \<and> newData ! 0 = [220, 220, 220, 255])"
  using other_pixel_unchanged [of "[[220, 220, 220, 255]]" 0]
  by simp

text \<open>
  C3. For every buffer of 4-tuples the loop returns a buffer of the same length in which
  every pixel is either the input pixel at that position, all four channels, or
  (255, 255, 255, 0).
\<close>

theorem output_pixel_kept_or_transparent:
  assumes "\<forall>p\<in>set datas. length p = 4"
  shows "\<exists>newData. for_item_in datas [] = Inr newData
           \<and> length newData = length datas
           \<and> (\<forall>i<length datas. newData ! i = datas ! i \<or> newData ! i = [255, 255, 255, 0])"
  using assms by (simp add: for_item_in_rgba spec_pixel_map_def)

theorem output_pixel_kept_or_transparent_witness:
  "length [255, 255, 255, 255 :: int] = 4 \<and> length [0, 0, 0, 255 :: int] = 4
   \<and> (\<exists>newData. for_item_in [[255, 255, 255, 255], [0, 0, 0, 255]] [] = Inr newData
         \<and> length newData = 2
         \<and> (newData ! 0 = [255, 255, 255, 255] \<or> newData ! 0 = [255, 255, 255, 0])
         \<and> (newData ! 1 = [0, 0, 0, 255] \<or> newData ! 1 = [255, 255, 255, 0]))"
proof -
  from output_pixel_kept_or_transparent [of "[[255, 255, 255, 255], [0, 0, 0, 255]]"]
  obtain newData where
      run: "for_item_in [[255, 255, 255, 255], [0, 0, 0, 255]] [] = Inr newData"
    and len: "length newData = 2"
    and each: "\<forall>i<2. newData ! i = [[255, 255, 255, 255], [0, 0, 0, 255]] ! i
                       \<or> newData ! i = [255, 255, 255, 0]"
    by auto
  from each [rule_format, of 0]
  have "newData ! 0 = [255, 255, 255, 255] \<or> newData ! 0 = [255, 255, 255, 0]"
    by simp
  moreover from each [rule_format, of 1]
  have "newData ! 1 = [0, 0, 0, 255] \<or> newData ! 1 = [255, 255, 255, 0]"
    by simp
  ultimately show ?thesis using run len by simp
qed

text \<open>
  C4. The transform is idempotent: for every buffer of 4-tuples the loop returns a buffer,
  and the loop run on that buffer returns the same buffer. The canonical pixel
  (255, 255, 255, 0) is itself classified as background.
\<close>

theorem transform_idempotent:
  assumes "\<forall>p\<in>set datas. length p = 4"
  shows "(\<exists>newData. for_item_in datas [] = Inr newData \<and> for_item_in newData [] = Inr newData)
         \<and> close_to_white [255, 255, 255, 0] = Inr True"
proof -
  have once: "for_item_in datas [] = Inr (map spec_pixel_map datas)"
    using assms by (simp add: for_item_in_rgba)
  have "\<forall>p\<in>set (map spec_pixel_map datas). length p = 4"
    using assms by (simp add: length_spec_pixel_map)
  then have "for_item_in (map spec_pixel_map datas) []
               = Inr (map spec_pixel_map (map spec_pixel_map datas))"
    by (simp add: for_item_in_rgba)
  then have twice: "for_item_in (map spec_pixel_map datas) [] = Inr (map spec_pixel_map datas)"
    by (simp add: spec_pixel_map_twice)
  have "close_to_white [255, 255, 255, 0] = Inr True"
    by (simp add: close_to_white_def getitem_def)
  with once twice show ?thesis by simp
qed

theorem transform_idempotent_witness:
  "length [230, 240, 250, 9 :: int] = 4 \<and> length [0, 0, 0, 255 :: int] = 4
   \<and> (\<exists>newData. for_item_in [[230, 240, 250, 9], [0, 0, 0, 255]] [] = Inr newData
         \<and> for_item_in newData [] = Inr newData)"
  using transform_idempotent [of "[[230, 240, 250, 9], [0, 0, 0, 255]]"]
  by simp

text \<open>
  C5. The transform is a pure per-pixel map: on every buffer of 4-tuples the loop returns
  the image of the buffer under one fixed function from pixels to pixels, the map of the
  specification, applied to each pixel on its own.
\<close>

theorem loop_is_pixel_map:
  assumes "\<forall>p\<in>set datas. length p = 4"
  shows "for_item_in datas [] = Inr (map spec_pixel_map datas)"
  using assms by (simp add: for_item_in_rgba)

theorem loop_is_pixel_map_witness:
  "length [0, 0, 0, 255 :: int] = 4 \<and> length [255, 255, 255, 255 :: int] = 4
   \<and> for_item_in [[0, 0, 0, 255], [255, 255, 255, 255], [0, 0, 0, 255]] []
       = Inr (map spec_pixel_map [[0, 0, 0, 255], [255, 255, 255, 255], [0, 0, 0, 255]])
   \<and> map spec_pixel_map [[0, 0, 0, 255], [255, 255, 255, 255], [0, 0, 0, 255]]
       = [[0, 0, 0, 255], [255, 255, 255, 0], [0, 0, 0, 255]]"
  using loop_is_pixel_map [of "[[0, 0, 0, 255], [255, 255, 255, 255], [0, 0, 0, 255]]"]
  by (simp add: spec_pixel_map_def)

text \<open>
  C9. Alpha has no influence on the classification. Two pixels with the same red, green
  and blue and any two alpha values get the same verdict. When the three channels are all
  above 220 the loop goes on with (255, 255, 255, 0) appended for either pixel, so the
  original alpha is gone; otherwise it goes on with the pixel itself appended, for either
  pixel.
\<close>

theorem alpha_not_consulted:
  "close_to_white [r, g, b, a1] = close_to_white [r, g, b, a2]
   \<and> (r > 220 \<and> g > 220 \<and> b > 220 \<longrightarrow>
        for_item_in ([r, g, b, a1] # datas) newData
          = for_item_in datas (newData @ [[255, 255, 255, 0]])
      \<and> for_item_in ([r, g, b, a2] # datas) newData
          = for_item_in datas (newData @ [[255, 255, 255, 0]]))
   \<and> (\<not> (r > 220 \<and> g > 220 \<and> b > 220) \<longrightarrow>
        for_item_in ([r, g, b, a1] # datas) newData
          = for_item_in datas (newData @ [[r, g, b, a1]])
      \<and> for_item_in ([r, g, b, a2] # datas) newData
          = for_item_in datas (newData @ [[r, g, b, a2]]))"
  by (simp add: close_to_white_def getitem_def)

theorem alpha_not_consulted_witness:
  "close_to_white [255, 255, 255, 255] = close_to_white [255, 255, 255, 7]
   \<and> for_item_in [[255, 255, 255, 255]] [] = Inr [[255, 255, 255, 0]]
   \<and> for_item_in [[255, 255, 255, 7]] [] = Inr [[255, 255, 255, 0]]
   \<and> close_to_white [255, 220, 255, 255] = close_to_white [255, 220, 255, 7]
   \<and> for_item_in [[255, 220, 255, 255]] [] = Inr [[255, 220, 255, 255]]
   \<and> for_item_in [[255, 220, 255, 7]] [] = Inr [[255, 220, 255, 7]]"
  using alpha_not_consulted [of 255 255 255 255 7 "[]" "[]"]
    alpha_not_consulted [of 255 220 255 255 7 "[]" "[]"]
  by (simp add: close_to_white_def getitem_def)

text \<open>
  C10. When every pixel of the buffer is a 4-tuple, the reads \<open>item[0]\<close>,
  \<open>item[1]\<close> and \<open>item[2]\<close> are in bounds for every pixel, the condition
  yields a truth value for every pixel, and the loop returns a buffer: the pass raises
  nothing.
\<close>

theorem channel_reads_in_bounds:
  assumes "\<forall>p\<in>set datas. length p = 4"
  shows "(\<forall>p\<in>set datas. getitem p 0 = Inr (p ! 0) \<and> getitem p 1 = Inr (p ! 1)
                          \<and> getitem p 2 = Inr (p ! 2)
                          \<and> (\<exists>c. close_to_white p = Inr c))
         \<and> (\<exists>newData. for_item_in datas [] = Inr newData)"
  using assms by (simp add: for_item_in_rgba close_to_white_rgba getitem_def)

theorem channel_reads_in_bounds_witness:
  "length [255, 255, 255, 255 :: int] = 4 \<and> length [0, 0, 0, 255 :: int] = 4
   \<and> getitem [255, 255, 255, 255] 2 = Inr 255
   \<and> getitem [0, 0, 0, 255] 0 = Inr 0
   \<and> (\<exists>newData. for_item_in [[255, 255, 255, 255], [0, 0, 0, 255]] [] = Inr newData)"
  using channel_reads_in_bounds [of "[[255, 255, 255, 255], [0, 0, 0, 255]]"]
  by simp

section \<open>The whole function\<close>

text \<open>A call that returns normally has gone through every step, each of them succeeding.\<close>

lemma remove_white_background_Inr:
  assumes "remove_white_background L w input_path output_path = (Inr u, w')"
  shows "\<exists>img0 s0 img s1 newData img' s2.
           Image_open L (fs w) input_path = (Inr img0, s0)
         \<and> convert L s0 img0 ''RGBA'' = (Inr img, s1)
         \<and> for_item_in (getdata L img) [] = Inr newData
         \<and> putdata L img newData = Inr img'
         \<and> save L s1 img' output_path ''PNG'' = (Inr (), s2)
         \<and> w' = w\<lparr>fs := s2,
                    stdout := stdout w @ [''Saved transparent image to '' @ output_path]\<rparr>"
  using assms
  by (auto simp add: remove_white_background_def split: prod.splits sum.splits)

text \<open>
  When Pillow delivers 4-tuples, what is put into the image and saved is the image of the
  converted pixels under the per-pixel map.
\<close>

lemma remove_white_background_rgba:
  assumes "Image_open L (fs w) input_path = (Inr img0, s1)"
    and "convert L s1 img0 ''RGBA'' = (Inr img, s2)"
    and "\<forall>p\<in>set (getdata L img). length p = 4"
    and "putdata L img (map spec_pixel_map (getdata L img)) = Inr img'"
  shows "remove_white_background L w input_path output_path =
           (case save L s2 img' output_path ''PNG'' of
              (Inl e, s3) \<Rightarrow> (Inl e, w\<lparr>fs := s3\<rparr>)
            | (Inr u, s3) \<Rightarrow>
                (Inr (), w\<lparr>fs := s3,
                   stdout := stdout w @ [''Saved transparent image to '' @ output_path]\<rparr>))"
  using assms by (simp add: remove_white_background_def for_item_in_rgba)

text \<open>
  C6. The output image has the input image's width and height. For every call that returns
  normally, the image handed to \<open>save\<close> is the opened image after \<open>convert\<close>
  and \<open>putdata\<close> and after nothing else, and the list put into it has exactly as
  many pixels as the converted image. Pillow's \<open>convert\<close> and \<open>putdata\<close> keep
  the size of an image; with that, the saved image has the size of the opened one.
\<close>

theorem dimensions_preserved:
  assumes run: "remove_white_background L w input_path output_path = (Inr (), w')"
    and conv: "\<And>s img m img' s'. convert L s img m = (Inr img', s')
                 \<Longrightarrow> Image_size L img' = Image_size L img"
    and put: "\<And>img xs img'. putdata L img xs = Inr img'
                 \<Longrightarrow> Image_size L img' = Image_size L img"
  shows "\<exists>img0 s0 img s1 newData img' s2.
           Image_open L (fs w) input_path = (Inr img0, s0)
         \<and> convert L s0 img0 ''RGBA'' = (Inr img, s1)
         \<and> for_item_in (getdata L img) [] = Inr newData
         \<and> length newData = length (getdata L img)
         \<and> putdata L img newData = Inr img'
         \<and> save L s1 img' output_path ''PNG'' = (Inr (), s2)
         \<and> Image_size L img' = Image_size L img0"
proof -
  from remove_white_background_Inr [OF run]
  obtain img0 s0 img s1 newData img' s2 where
      o: "Image_open L (fs w) input_path = (Inr img0, s0)"
    and c: "convert L s0 img0 ''RGBA'' = (Inr img, s1)"
    and l: "for_item_in (getdata L img) [] = Inr newData"
    and p: "putdata L img newData = Inr img'"
    and s: "save L s1 img' output_path ''PNG'' = (Inr (), s2)"
    by blast
  from for_item_in_length [OF l] have len: "length newData = length (getdata L img)"
    by simp
  from put [OF p] conv [OF c] have "Image_size L img' = Image_size L img0"
    by simp
  with o c l len p s show ?thesis by blast
qed

theorem dimensions_preserved_witness:
  "remove_white_background mem_pil small_world ''in.png'' ''out.png''
     = (Inr (), small_world\<lparr>fs := \<lparr>files = (''out.png'',
                 \<lparr>r_mode = ''RGBA'', r_size = (2, 1),
                  r_data = [[255, 255, 255, 0], [0, 0, 0, 255]]\<rparr>) # files (fs small_world),
                 full = False\<rparr>,
               stdout := [''Saved transparent image to out.png'']\<rparr>)
   \<and> (\<exists>img0 s0 img s1 newData img' s2.
           Image_open mem_pil (fs small_world) ''in.png'' = (Inr img0, s0)
         \<and> convert mem_pil s0 img0 ''RGBA'' = (Inr img, s1)
         \<and> for_item_in (getdata mem_pil img) [] = Inr newData
         \<and> length newData = length (getdata mem_pil img)
         \<and> putdata mem_pil img newData = Inr img'
         \<and> save mem_pil s1 img' ''out.png'' ''PNG'' = (Inr (), s2)
         \<and> Image_size mem_pil img' = Image_size mem_pil img0)"
proof -
  let ?w' = "small_world\<lparr>fs := \<lparr>files = (''out.png'',
                 \<lparr>r_mode = ''RGBA'', r_size = (2, 1),
                  r_data = [[255, 255, 255, 0], [0, 0, 0, 255]]\<rparr>) # files (fs small_world),
                 full = False\<rparr>,
               stdout := [''Saved transparent image to out.png'']\<rparr>"
  have run: "remove_white_background mem_pil small_world ''in.png'' ''out.png'' = (Inr (), ?w')"
    by (simp add: remove_white_background_def mem_defs close_to_white_def getitem_def)
  have "\<exists>img0 s0 img s1 newData img' s2.
           Image_open mem_pil (fs small_world) ''in.png'' = (Inr img0, s0)
         \<and> convert mem_pil s0 img0 ''RGBA'' = (Inr img, s1)
         \<and> for_item_in (getdata mem_pil img) [] = Inr newData
         \<and> length newData = length (getdata mem_pil img)
         \<and> putdata mem_pil img newData = Inr img'
         \<and> save mem_pil s1 img' ''out.png'' ''PNG'' = (Inr (), s2)
         \<and> Image_size mem_pil img' = Image_size mem_pil img0"
    by (rule dimensions_preserved [OF run])
      (auto simp add: mem_pil_def mem_convert_def mem_putdata_def split: if_splits)
  with run show ?thesis
    by blast
qed

text \<open>
  C8. A failure is passed on as it is. When \<open>Image.open\<close> or \<open>convert\<close> raises,
  the call ends with that very error in the world as the failing call left it: nothing is
  printed, and the result is the same whatever \<open>save\<close> would do and whatever the
  output path is, so nothing is written to the output path. When \<open>save\<close> raises,
  the call ends with that very error in the world as the failed \<open>save\<close> left it:
  no second attempt, no removal of what was written, no message.
\<close>

theorem failures_propagate:
  "(Image_open L (fs w) input_path = (Inl e, s1) \<longrightarrow>
      remove_white_background L w input_path output_path = (Inl e, w\<lparr>fs := s1\<rparr>)
    \<and> remove_white_background (L\<lparr>save := sv\<rparr>) w input_path other_path
        = remove_white_background L w input_path output_path)
   \<and> (Image_open L (fs w) input_path = (Inr img0, s1)
        \<and> convert L s1 img0 ''RGBA'' = (Inl e, s2) \<longrightarrow>
      remove_white_background L w input_path output_path = (Inl e, w\<lparr>fs := s2\<rparr>)
    \<and> remove_white_background (L\<lparr>save := sv\<rparr>) w input_path other_path
        = remove_white_background L w input_path output_path)
   \<and> (Image_open L (fs w) input_path = (Inr img0, s1)
        \<and> convert L s1 img0 ''RGBA'' = (Inr img, s2)
        \<and> for_item_in (getdata L img) [] = Inr newData
        \<and> putdata L img newData = Inr img'
        \<and> save L s2 img' output_path ''PNG'' = (Inl e, s3) \<longrightarrow>
      remove_white_background L w input_path output_path = (Inl e, w\<lparr>fs := s3\<rparr>))"
  by (simp add: remove_white_background_def)

theorem failures_propagate_witness:
  "remove_white_background mem_pil small_world ''none.png'' ''out.png''
     = (Inl FileNotFoundError, small_world)
   \<and> remove_white_background (mem_pil\<lparr>save := (\<lambda>d r p f. (Inr (), d\<lparr>files := []\<rparr>))\<rparr>)
       small_world ''none.png'' ''in.png''
     = (Inl FileNotFoundError, small_world)
   \<and> remove_white_background mem_pil small_world ''cut.png'' ''out.png''
     = (Inl OSError, small_world)
   \<and> remove_white_background mem_pil full_world ''in.png'' ''in.png''
     = (Inl OSError,
        full_world\<lparr>fs := \<lparr>files = [(''in.png'', \<lparr>r_mode = ''RGBA'', r_size = (2, 1), r_data = []\<rparr>),
                                    (''in.png'', two_by_one)],
                          full = True\<rparr>\<rparr>)"
proof -
  have o: "Image_open mem_pil (fs small_world) ''none.png''
             = (Inl FileNotFoundError, fs small_world)"
    by (simp add: mem_defs)
  have c1: "Image_open mem_pil (fs small_world) ''cut.png'' = (Inr truncated, fs small_world)"
    by (simp add: mem_defs)
  have c2: "convert mem_pil (fs small_world) truncated ''RGBA'' = (Inl OSError, fs small_world)"
    by (simp add: mem_defs)
  let ?img = "\<lparr>r_mode = ''RGBA'', r_size = (2, 1),
               r_data = [[255, 255, 255, 255], [0, 0, 0, 255]]\<rparr>"
  let ?img' = "\<lparr>r_mode = ''RGBA'', r_size = (2, 1),
               r_data = [[255, 255, 255, 0], [0, 0, 0, 255]]\<rparr>"
  let ?s3 = "\<lparr>files = [(''in.png'', \<lparr>r_mode = ''RGBA'', r_size = (2, 1), r_data = []\<rparr>),
                       (''in.png'', two_by_one)],
              full = True\<rparr>"
  let ?sv = "\<lambda>(d::disk) (r::raster) (p::string) (f::string).
               (Inr () :: error + unit, d\<lparr>files := []\<rparr>)"
  have s1: "Image_open mem_pil (fs full_world) ''in.png'' = (Inr two_by_one, fs full_world)"
    by (simp add: mem_defs)
  have s2: "convert mem_pil (fs full_world) two_by_one ''RGBA'' = (Inr ?img, fs full_world)"
    by (simp add: mem_defs)
  have s3: "for_item_in (getdata mem_pil ?img) [] = Inr [[255, 255, 255, 0], [0, 0, 0, 255]]"
    by (simp add: mem_defs close_to_white_def getitem_def)
  have s4: "putdata mem_pil ?img [[255, 255, 255, 0], [0, 0, 0, 255]] = Inr ?img'"
    by (simp add: mem_defs)
  have s5: "save mem_pil (fs full_world) ?img' ''in.png'' ''PNG'' = (Inl OSError, ?s3)"
    by (simp add: mem_defs)
  from failures_propagate [of mem_pil small_world "''none.png''" FileNotFoundError
      "fs small_world" "''out.png''" ?sv "''in.png''"] o
  have a: "remove_white_background mem_pil small_world ''none.png'' ''out.png''
             = (Inl FileNotFoundError, small_world)
           \<and> remove_white_background (mem_pil\<lparr>save := ?sv\<rparr>) small_world ''none.png'' ''in.png''
             = (Inl FileNotFoundError, small_world)"
    by simp
  from failures_propagate [of mem_pil small_world "''cut.png''" OSError "fs small_world"
      "''out.png''" _ _ truncated "fs small_world"] c1 c2
  have b: "remove_white_background mem_pil small_world ''cut.png'' ''out.png''
             = (Inl OSError, small_world)"
    by simp
  from failures_propagate [of mem_pil full_world "''in.png''" OSError "fs full_world"
      "''in.png''" _ _  two_by_one "fs full_world" ?img "[[255, 255, 255, 0], [0, 0, 0, 255]]"
      ?img' ?s3] s1 s2 s3 s4 s5
  have c: "remove_white_background mem_pil full_world ''in.png'' ''in.png''
             = (Inl OSError, full_world\<lparr>fs := ?s3\<rparr>)"
    by simp
  from a b c show ?thesis by simp
qed

end
